theory Spec2Isabelle
  imports Complex_Main "HOL-Library.Word"
begin

unbundle bit_operations_syntax

section \<open>K3D backend: packed colours\<close>

text \<open>
  \<^verbatim>\<open>spb/backends/k3d.py\<close>, the two static methods of \<^verbatim>\<open>K3DBackend\<close>:
  \<^verbatim>\<open>
    def _int_to_rgb(RGBint):
        B =  RGBint & 255
        G = (RGBint >> 8) & 255
        R =   (RGBint >> 16) & 255
        return R, G, B

    def _rgb_to_int(RGB):
        R, G, B = RGB
        return R * 256**2 + G * 256 + B
  \<close>
  Python integers are unbounded, so they are \<^typ>\<open>int\<close>. On a negative integer Python's
  \<^verbatim>\<open>>>\<close> rounds towards minus infinity and \<^verbatim>\<open>&\<close> works on the infinite two's
  complement, which is what \<^const>\<open>drop_bit\<close> and \<open>AND\<close> do on \<^typ>\<open>int\<close>. The tuple
  that \<^verbatim>\<open>_rgb_to_int\<close> unpacks has exactly three components: a triple.
\<close>

definition int_to_rgb :: "int \<Rightarrow> int \<times> int \<times> int" where
  "int_to_rgb RGBint =
     (let B = RGBint AND 255;
          G = (drop_bit 8 RGBint) AND 255;
          R = (drop_bit 16 RGBint) AND 255
      in (R, G, B))"

definition rgb_to_int :: "int \<times> int \<times> int \<Rightarrow> int" where
  "rgb_to_int RGB = (case RGB of (R, G, B) \<Rightarrow> R * 256 ^ 2 + G * 256 + B)"


section \<open>Range/Domain Normalizer: coordinate vectors\<close>

text \<open>
  The series classes of \<^verbatim>\<open>spb/series.py\<close> are not among the sources; only their
  tests (\<^verbatim>\<open>tests/test_series.py\<close>) are. The part of them that turns one range into one
  coordinate vector is modelled here from section 4.1 of the specification. Coordinates
  are exact rationals (every floating-point bound is one); floor and ceiling give Python
  integers, \<^typ>\<open>int\<close>. Logarithmic spacing is left out: \<^verbatim>\<open>only_integers\<close> overrides
  the spacing, and geometric spacing needs real exponentiation.
\<close>

text \<open>
  Modelled from the spec: the failure of the normalizer of \<^verbatim>\<open>spb/series.py\<close> (absent)
  when no vector of the requested length exists. Section 4.1: "the produced vector length
  is always an integer >= 2 for continuous ranges (error otherwise)". The specification
  gives the error no name.
\<close>

datatype error = InvalidPointCount

text \<open>
  Modelled from the spec: linear spacing of the normalizer of \<^verbatim>\<open>spb/series.py\<close>
  (absent). Section 4.1: "Linear spacing: evenly spaced points from start to end
  inclusive, count = requested n". The \<open>i\<close>-th of \<open>n\<close> points is
  \<open>start + i * (end - start) / (n - 1)\<close>. A single point is \<open>start\<close> (there is no step to
  divide by), no point at all is the empty vector, and a negative count has no vector.
\<close>

definition linspace :: "rat \<Rightarrow> rat \<Rightarrow> int \<Rightarrow> error + rat list" where
  "linspace start end' n =
     (if n < 0 then Inl InvalidPointCount
      else if n = 1 then Inr [start]
      else Inr (map (\<lambda>i. start + rat_of_nat i * ((end' - start) / rat_of_int (n - 1)))
                  [0..<nat n]))"

text \<open>
  Modelled from the spec: the coordinate vector of one axis, produced by the normalizer of
  \<^verbatim>\<open>spb/series.py\<close> (absent) from the range \<open>(start, end)\<close>, the requested count \<open>n\<close>
  and the option \<^verbatim>\<open>only_integers\<close>. Section 4.1: "only_integers: overrides spacing to
  emit consecutive integers covering [ceil(start), floor(end)], and the effective point
  count becomes floor(end) - ceil(start) + 1 for every axis, overriding any explicitly
  requested n". The bounds are rounded inwards, the count is computed from them, and the
  rounded range is spaced linearly with that count. Without the option the requested
  count is used, and a count below two is the error of the contract quoted above.
  A series over several ranges, or over a complex range (a real and an imaginary axis),
  calls this once per axis.
\<close>

definition discretize :: "rat \<Rightarrow> rat \<Rightarrow> int \<Rightarrow> bool \<Rightarrow> error + rat list" where
  "discretize start end' n only_integers =
     (if only_integers then
        (let s = \<lceil>start\<rceil>; e = \<lfloor>end'\<rfloor>; N = e - s + 1
         in linspace (rat_of_int s) (rat_of_int e) N)
      else if n < 2 then Inl InvalidPointCount
      else linspace start end' n)"

text \<open>
  Modelled from the spec: a bound of a range of \<^verbatim>\<open>spb/series.py\<close> (absent). Section 3:
  "start/end may be real or complex (complex ranges denote a 2D rectangular domain in the
  complex plane, with start/end as opposite corners)". A real bound has imaginary part 0.
\<close>

datatype number = RealNum rat | ComplexNum rat rat

fun re_part :: "number \<Rightarrow> rat" where
  "re_part (RealNum x) = x"
| "re_part (ComplexNum x y) = x"

fun im_part :: "number \<Rightarrow> rat" where
  "im_part (RealNum x) = 0"
| "im_part (ComplexNum x y) = y"

text \<open>
  Modelled from the spec: the range of \<^verbatim>\<open>spb/series.py\<close> (absent). Section 3:
  "Range: (variable_name: string, start: number, end: number)", with the invariant
  \<open>start != end\<close> only: nothing orders the two bounds.
\<close>

datatype range = Range string number number

text \<open>
  Modelled from the spec: the axes one range of \<^verbatim>\<open>spb/series.py\<close> (absent) is
  discretized along. A real range is one axis. Section 3: "when complex, the produced grid
  spans Re(start)..Re(end) x Im(start)..Im(end)"; section 4.1: "for complex ranges, returns
  two real vectors (real part grid, imaginary part grid)": the real axis first, then the
  imaginary one.
\<close>

fun axis_bounds :: "range \<Rightarrow> (rat \<times> rat) list" where
  "axis_bounds (Range v (RealNum s) (RealNum e)) = [(s, e)]"
| "axis_bounds (Range v s e) = [(re_part s, re_part e), (im_part s, im_part e)]"

text \<open>
  Modelled from the spec: the attributes of a series of \<^verbatim>\<open>spb/series.py\<close> (absent) that
  the normalizer reads. Section 3: "ranges: ordered sequence of Range", "discretization
  counts n1, n2, n3 (resolution per axis)", and the option \<^verbatim>\<open>only_integers\<close>. The points
  of a series sampled adaptively come from the adaptive sampler, which is not modelled.
\<close>

record series =
  ranges :: "range list"
  n1 :: int
  n2 :: int
  n3 :: int
  only_integers :: bool

text \<open>
  Modelled from the spec: the bounds of all axes of a series, in the order of its ranges,
  and the count requested for the \<open>k\<close>-th axis (\<open>n1\<close> for the first, \<open>n2\<close> for the second,
  \<open>n3\<close> for the third; section 4.1 gives a complex range "n1 columns (real axis) x n2 rows
  (imaginary axis)"). Both belong to \<^verbatim>\<open>spb/series.py\<close> (absent).
\<close>

definition bounds_of :: "series \<Rightarrow> (rat \<times> rat) list" where
  "bounds_of S = concat (map axis_bounds (ranges S))"

definition requested :: "series \<Rightarrow> nat \<Rightarrow> int" where
  "requested S k = (if k = 0 then n1 S else if k = 1 then n2 S else n3 S)"

text \<open>
  Modelled from the spec: the coordinate vectors of a series of \<^verbatim>\<open>spb/series.py\<close>
  (absent), one per axis. Section 4.1: "given a Range and a requested point count, produce
  a 1D coordinate vector (or a 2D/3D meshgrid built by composing per-axis vectors)". The
  \<open>k\<close>-th axis is discretized on its own, from its bounds and its requested count.
\<close>

definition coordinate_axes :: "series \<Rightarrow> (error + rat list) list" where
  "coordinate_axes S =
     map (\<lambda>(k, (s, e)). discretize s e (requested S k) (only_integers S))
       (enumerate 0 (bounds_of S))"




section \<open>Packed colours: the conversions undo each other\<close>

lemma and_255_mod: "(k::int) AND 255 = k mod 256"
proof -
  have "k AND mask 8 = k mod 2 ^ 8"
    by (simp only: take_bit_eq_mask [symmetric] take_bit_eq_mod)
  then show ?thesis by (simp add: mask_eq_exp_minus_1)
qed

lemma int_to_rgb_div_mod:
  "int_to_rgb c = ((c div 65536) mod 256, (c div 256) mod 256, c mod 256)"
  by (simp add: int_to_rgb_def and_255_mod drop_bit_eq_div)

lemma int_to_rgb_range:
  "int_to_rgb c = (R, G, B) \<Longrightarrow> 0 \<le> R \<and> R \<le> 255 \<and> 0 \<le> G \<and> G \<le> 255 \<and> 0 \<le> B \<and> B \<le> 255"
  by (auto simp: int_to_rgb_div_mod)

lemma pack_unpack:
  assumes "0 \<le> c" "c < 2 ^ 24"
  shows "rgb_to_int (int_to_rgb c) = c"
proof -
  have "c div 65536 < 256" "0 \<le> c div 65536"
    using assms by simp_all
  then have r: "(c div 65536) mod 256 = c div 65536"
    by simp
  have "c mod (256 * 256) = 256 * ((c div 256) mod 256) + c mod 256"
    by (rule zmod_zmult2_eq) simp
  then have lo: "256 * ((c div 256) mod 256) + c mod 256 = c mod 65536"
    by simp
  have "c = 65536 * (c div 65536) + c mod 65536"
    by simp
  with lo have "(c div 65536) * 65536 + (c div 256) mod 256 * 256 + c mod 256 = c"
    by linarith
  then show ?thesis
    by (simp add: int_to_rgb_div_mod rgb_to_int_def r)
qed

lemma digit_mod:
  fixes b q n :: int
  assumes "0 \<le> b" "b < n"
  shows "(q * n + b) mod n = b"
  using assms by simp

lemma digit_div:
  fixes b q n :: int
  assumes "0 \<le> b" "b < n"
  shows "(q * n + b) div n = q"
  using assms by simp

lemma unpack_pack:
  assumes "0 \<le> R" "R \<le> 255" "0 \<le> G" "G \<le> 255" "0 \<le> B" "B \<le> 255"
  shows "int_to_rgb (rgb_to_int (R, G, B)) = (R, G, B)"
proof -
  let ?c = "R * 65536 + G * 256 + B"
  have c1: "?c = (R * 256 + G) * 256 + B"
    by (simp add: algebra_simps)
  have b: "?c mod 256 = B"
    unfolding c1 using assms by (intro digit_mod) simp_all
  have d1: "?c div 256 = R * 256 + G"
    unfolding c1 using assms by (intro digit_div) simp_all
  have g: "(R * 256 + G) mod 256 = G"
    using assms by (intro digit_mod) simp_all
  have "(R * 256 + G) div 256 = R"
    using assms by (intro digit_div) simp_all
  then have "?c div 65536 = R"
    using d1 zdiv_zmult2_eq [of 256 ?c 256] by simp
  then have r: "(?c div 65536) mod 256 = R"
    using assms by simp
  show ?thesis
    using r g b d1 by (simp add: int_to_rgb_div_mod rgb_to_int_def)
qed

text \<open>
  Claim C10. In the K3D backend the packed-integer and the tuple form of an RGB colour are
  mutual inverses: for every integer \<open>c\<close> with \<open>0 \<le> c < 2^24\<close>,
  \<^verbatim>\<open>_rgb_to_int(_int_to_rgb(c)) == c\<close>, and for every triple \<open>(R, G, B)\<close> whose components
  are integers in \<open>0..255\<close>, \<^verbatim>\<open>_int_to_rgb(_rgb_to_int((R, G, B))) == (R, G, B)\<close>.
\<close>

theorem rgb_int_mutual_inverses:
  "(0 \<le> c \<and> c < 2 ^ 24 \<longrightarrow> rgb_to_int (int_to_rgb c) = c) \<and>
   (0 \<le> R \<and> R \<le> 255 \<and> 0 \<le> G \<and> G \<le> 255 \<and> 0 \<le> B \<and> B \<le> 255
      \<longrightarrow> int_to_rgb (rgb_to_int (R, G, B)) = (R, G, B))"
proof (intro conjI impI)
  assume "0 \<le> c \<and> c < 2 ^ 24"
  then show "rgb_to_int (int_to_rgb c) = c"
    by (simp add: pack_unpack)
next
  assume "0 \<le> R \<and> R \<le> 255 \<and> 0 \<le> G \<and> G \<le> 255 \<and> 0 \<le> B \<and> B \<le> 255"
  then show "int_to_rgb (rgb_to_int (R, G, B)) = (R, G, B)"
    by (intro unpack_pack) simp_all
qed

text \<open>
  The colour \<^verbatim>\<open>0x123456\<close>, that is \<open>(18, 52, 86)\<close>, both ways.
\<close>

theorem rgb_int_mutual_inverses_witness:
  "((0::int) \<le> 1193046 \<and> (1193046::int) < 2 ^ 24) \<and>
   rgb_to_int (int_to_rgb 1193046) = 1193046 \<and>
   ((0::int) \<le> 18 \<and> (18::int) \<le> 255 \<and> (0::int) \<le> 52 \<and> (52::int) \<le> 255
      \<and> (0::int) \<le> 86 \<and> (86::int) \<le> 255) \<and>
   int_to_rgb (rgb_to_int (18, 52, 86)) = (18, 52, 86) \<and>
   int_to_rgb 1193046 = (18, 52, 86)"
proof -
  have c: "(0::int) \<le> 1193046 \<and> (1193046::int) < 2 ^ 24"
    by simp
  have t: "(0::int) \<le> 18 \<and> (18::int) \<le> 255 \<and> (0::int) \<le> 52 \<and> (52::int) \<le> 255
      \<and> (0::int) \<le> 86 \<and> (86::int) \<le> 255"
    by simp
  have v: "int_to_rgb 1193046 = (18, 52, 86)"
    by (simp add: int_to_rgb_div_mod)
  from rgb_int_mutual_inverses [of 1193046 18 52 86] c t v show ?thesis
    by blast
qed

text \<open>
  Outside the stated ranges the conversions are not inverse to each other: a packed value
  of more than 24 bits loses its high bits, and a component above 255 carries over.
\<close>

lemma pack_unpack_needs_24_bits: "rgb_to_int (int_to_rgb (2 ^ 24 + 5)) = 5"
  by (simp add: int_to_rgb_div_mod rgb_to_int_def)

lemma unpack_pack_needs_bytes: "int_to_rgb (rgb_to_int (0, 0, 256)) = (0, 1, 0)"
  by (simp add: int_to_rgb_div_mod rgb_to_int_def)


section \<open>Coordinate vectors of whole numbers\<close>




text \<open>A negative count has no axis, whatever count was requested.\<close>

lemma discretize_only_integers_negative:
  assumes "\<lfloor>e\<rfloor> - \<lceil>s\<rceil> + 1 < 0"
  shows "discretize s e n True = Inl InvalidPointCount"
  using assms by (simp add: discretize_def linspace_def)

text \<open>A range whose bounds are in order never has a negative count.\<close>

lemma ordered_range_count:
  fixes s e :: rat
  assumes "s \<le> e"
  shows "0 \<le> \<lfloor>e\<rfloor> - \<lceil>s\<rceil> + 1"
proof -
  have "s < rat_of_int (\<lfloor>e\<rfloor> + 1)"
    using assms by linarith
  then have "\<lceil>s\<rceil> \<le> \<lfloor>e\<rfloor> + 1"
    by (simp add: ceiling_le_iff less_imp_le)
  then show ?thesis by simp
qed



lemma length_coordinate_axes: "length (coordinate_axes S) = length (bounds_of S)"
  by (simp add: coordinate_axes_def)





text \<open>
  A range without an integer has an empty axis, a range around one integer a single
  point, and without the option the requested count is kept.
\<close>

lemma discretize_no_integer_in_range: "discretize (1 / 5) (4 / 5) 7 True = Inr []"
  by code_simp

lemma discretize_single_integer: "discretize (1 / 2) (3 / 2) 7 True = Inr [1]"
  by code_simp

lemma discretize_requested_count: "discretize 0 1 5 False = Inr [0, 1 / 4, 1 / 2, 3 / 4, 1]"
  by code_simp

end
